theory Spec2Isabelle
  imports Complex_Main
begin

section \<open>Python values\<close>

text \<open>
  The raw calls are decoded JSON, so a field of a raw call can hold any JSON value.
  Python floats are read as reals (rounding, infinities and NaN are left out); a
  dictionary is an association list, looked up by its first matching key.
\<close>

datatype json =
    JNull
  | JBool bool
  | JInt int
  | JFloat real
  | JStr string
  | JList "json list"
  | JDict "(string \<times> json) list"

type_synonym datetime = int

text \<open>Python's truth value of an object: what \<open>if x\<close>, \<open>not x\<close> and \<open>x or y\<close> test.\<close>

fun truthy :: "json \<Rightarrow> bool" where
  "truthy JNull = False"
| "truthy (JBool b) = b"
| "truthy (JInt i) = (i \<noteq> 0)"
| "truthy (JFloat r) = (r \<noteq> 0)"
| "truthy (JStr s) = (s \<noteq> [])"
| "truthy (JList xs) = (xs \<noteq> [])"
| "truthy (JDict d) = (d \<noteq> [])"

definition py_or :: "json \<Rightarrow> json \<Rightarrow> json" where
  "py_or a b = (if truthy a then a else b)"

text \<open>\<open>d.get(k)\<close> and \<open>d.get(k, default)\<close>.\<close>

definition dict_get_default :: "(string \<times> json) list \<Rightarrow> string \<Rightarrow> json \<Rightarrow> json" where
  "dict_get_default d k dflt = (case map_of d k of None \<Rightarrow> dflt | Some v \<Rightarrow> v)"

definition dict_get :: "(string \<times> json) list \<Rightarrow> string \<Rightarrow> json" where
  "dict_get d k = dict_get_default d k JNull"

fun is_str :: "json \<Rightarrow> bool" where
  "is_str (JStr s) = True"
| "is_str v = False"

text \<open>
  The library functions the parser calls. \<open>None\<close> stands for the exception the Python
  function raises (ValueError, TypeError, OverflowError, OSError).
\<close>

record pyenv =
  py_str_of :: "json \<Rightarrow> string"
  py_float :: "json \<Rightarrow> real option"
  fromtimestamp :: "real \<Rightarrow> datetime option"
  fromisoformat :: "string \<Rightarrow> datetime option"

text \<open>\<open>str(v)\<close>: a string is returned as it is, any other value is formatted by the library.\<close>

definition py_str :: "pyenv \<Rightarrow> json \<Rightarrow> string" where
  "py_str env v = (case v of JStr s \<Rightarrow> s | _ \<Rightarrow> py_str_of env v)"

text \<open>\<open>s.replace('Z', '+00:00')\<close>.\<close>

definition replace_Z :: "string \<Rightarrow> string" where
  "replace_Z s = concat (map (\<lambda>c. if c = CHR ''Z'' then ''+00:00'' else [c]) s)"

section \<open>CallRecord\<close>

text \<open>
  The dataclass \<open>CallRecord\<close>. Its annotations are not enforced by Python, so each
  field has the type of the values \<open>parse_call_record\<close> can put there: \<open>call_id\<close>,
  \<open>audio_url\<close>, \<open>system_name\<close>, \<open>department\<close> and \<open>call_type\<close> are taken from the raw
  call as they are.
\<close>

record CallRecord =
  call_id :: json
  timestamp :: datetime
  frequency :: real
  talkgroup :: "string option"
  source :: "string option"
  duration :: real
  audio_url :: json
  audio_file_path :: "string option"
  system_name :: json
  department :: json
  call_type :: json
  units :: "json list"
  metadata :: json
  processed :: bool
  created_at :: datetime

section \<open>RdioScannerClient.parse_call_record\<close>

text \<open>
  \<open>isinstance(x, (int, float))\<close> with the number read: \<open>bool\<close> is a subclass of
  \<open>int\<close> in Python, so \<open>True\<close> and \<open>False\<close> count as 1 and 0.
\<close>

fun as_number :: "json \<Rightarrow> real option" where
  "as_number (JInt i) = Some (real_of_int i)"
| "as_number (JFloat r) = Some r"
| "as_number (JBool b) = Some (if b then 1 else 0)"
| "as_number v = None"

definition parse_timestamp :: "pyenv \<Rightarrow> datetime \<Rightarrow> json \<Rightarrow> datetime option" where
  "parse_timestamp env now timestamp_raw =
     (case as_number timestamp_raw of
        Some x \<Rightarrow> fromtimestamp env x
      | None \<Rightarrow>
          (case timestamp_raw of
             JStr s \<Rightarrow>
               (case fromisoformat env (replace_Z s) of
                  Some t \<Rightarrow> Some t
                | None \<Rightarrow> Some now)
           | _ \<Rightarrow> Some now))"

definition parse_float_field :: "pyenv \<Rightarrow> (string \<times> json) list \<Rightarrow> string \<Rightarrow> real option" where
  "parse_float_field env d k =
     (if truthy (dict_get d k) then py_float env (dict_get_default d k (JInt 0)) else Some 0)"

definition parse_str_field :: "pyenv \<Rightarrow> json \<Rightarrow> string option" where
  "parse_str_field env v = (if v \<noteq> JNull then Some (py_str env v) else None)"

definition parse_units :: "(string \<times> json) list \<Rightarrow> json list" where
  "parse_units d =
     (case dict_get_default d ''units'' (JList []) of
        JStr s \<Rightarrow> [JStr s]
      | JList xs \<Rightarrow> xs
      | _ \<Rightarrow> [])"

text \<open>
  \<open>now\<close> is the clock, \<open>fresh\<close> the string of the UUID drawn for this call. A raw call
  that is no dictionary has no \<open>get\<close>: the AttributeError is caught like every other
  exception of the body and the result is \<open>None\<close>.
\<close>

definition parse_call_record :: "pyenv \<Rightarrow> datetime \<Rightarrow> string \<Rightarrow> json \<Rightarrow> CallRecord option" where
  "parse_call_record env now fresh api_call =
     (case api_call of
        JDict d \<Rightarrow>
          (let cid = py_or (py_or (dict_get d ''id'') (dict_get d ''call_id'')) (JStr fresh);
               timestamp_raw =
                 py_or (py_or (dict_get d ''timestamp'') (dict_get d ''time''))
                   (dict_get d ''datetime'')
           in case parse_timestamp env now timestamp_raw of
                None \<Rightarrow> None
              | Some ts \<Rightarrow>
                  (case parse_float_field env d ''frequency'' of
                     None \<Rightarrow> None
                   | Some freq \<Rightarrow>
                       (case parse_float_field env d ''duration'' of
                          None \<Rightarrow> None
                        | Some dur \<Rightarrow>
                            Some \<lparr> call_id = cid,
                                   timestamp = ts,
                                   frequency = freq,
                                   talkgroup =
                                     parse_str_field env
                                       (py_or (dict_get d ''talkgroup'') (dict_get d ''tg'')),
                                   source =
                                     parse_str_field env
                                       (py_or (dict_get d ''source'') (dict_get d ''src'')),
                                   duration = dur,
                                   audio_url =
                                     py_or (py_or (py_or (dict_get d ''audio_url'')
                                                         (dict_get d ''audioUrl''))
                                                  (dict_get d ''audio''))
                                           (dict_get d ''file''),
                                   audio_file_path = None,
                                   system_name =
                                     py_or (dict_get d ''system'') (dict_get d ''system_name''),
                                   department =
                                     py_or (dict_get d ''department'') (dict_get d ''agency''),
                                   call_type =
                                     py_or (dict_get d ''type'') (dict_get d ''call_type''),
                                   units = parse_units d,
                                   metadata = api_call,
                                   processed = False,
                                   created_at = now \<rparr>)))
      | _ \<Rightarrow> None)"

text \<open>
  A concrete library for the examples, which only hand it numbers: a number converts
  to itself, a timestamp in seconds to its microseconds (the unit of \<open>datetime\<close>), and
  no string is read as a number or a date.
\<close>

definition example_env :: pyenv where
  "example_env =
     \<lparr> py_str_of = (\<lambda>v. ''?''),
       py_float = as_number,
       fromtimestamp = (\<lambda>x. Some (floor (x * 1000000))),
       fromisoformat = (\<lambda>s. None) \<rparr>"

section \<open>DatabaseManager: the calls table\<close>

text \<open>
  One row of the table \<open>calls\<close>: the fourteen columns an insert supplies, and the two
  the server maintains (\<open>created_at\<close>, \<open>updated_at\<close>; the surrogate \<open>id\<close> is never read
  and is left out). A column holds the Python value handed to the driver. The table is
  the list of its rows; the constraint \<open>call_id UNIQUE\<close> is the invariant that the
  \<open>row_call_id\<close> of the rows are distinct.
\<close>

record calls_row =
  row_call_id :: json
  row_timestamp :: datetime
  row_frequency :: real
  row_talkgroup :: "string option"
  row_source :: "string option"
  row_duration :: real
  row_audio_url :: json
  row_audio_file_path :: "string option"
  row_system_name :: json
  row_department :: json
  row_call_type :: json
  row_units :: "json list"
  row_metadata :: json
  row_processed :: bool
  row_created_at :: datetime
  row_updated_at :: datetime

type_synonym calls_table = "calls_row list"

text \<open>The branch \<open>INSERT INTO calls (...) VALUES (...)\<close>: both timestamps default to \<open>NOW()\<close>.\<close>

definition inserted_row :: "datetime \<Rightarrow> CallRecord \<Rightarrow> calls_row" where
  "inserted_row db_now r =
     \<lparr> row_call_id = call_id r,
       row_timestamp = timestamp r,
       row_frequency = frequency r,
       row_talkgroup = talkgroup r,
       row_source = source r,
       row_duration = duration r,
       row_audio_url = audio_url r,
       row_audio_file_path = audio_file_path r,
       row_system_name = system_name r,
       row_department = department r,
       row_call_type = call_type r,
       row_units = units r,
       row_metadata = metadata r,
       row_processed = processed r,
       row_created_at = db_now,
       row_updated_at = db_now \<rparr>"

text \<open>The branch \<open>ON CONFLICT (call_id) DO UPDATE SET ... = EXCLUDED. ..., updated_at = NOW()\<close>.\<close>

definition conflict_update :: "datetime \<Rightarrow> CallRecord \<Rightarrow> calls_row \<Rightarrow> calls_row" where
  "conflict_update db_now r row =
     row \<lparr> row_timestamp := timestamp r,
           row_frequency := frequency r,
           row_talkgroup := talkgroup r,
           row_source := source r,
           row_duration := duration r,
           row_audio_url := audio_url r,
           row_audio_file_path := audio_file_path r,
           row_system_name := system_name r,
           row_department := department r,
           row_call_type := call_type r,
           row_units := units r,
           row_metadata := metadata r,
           row_processed := processed r,
           row_updated_at := db_now \<rparr>"

definition upsert :: "datetime \<Rightarrow> CallRecord \<Rightarrow> calls_table \<Rightarrow> calls_table" where
  "upsert db_now r t =
     (if call_id r \<in> set (map row_call_id t)
      then map (\<lambda>row. if row_call_id row = call_id r then conflict_update db_now r row
                       else row) t
      else t @ [inserted_row db_now r])"


text \<open>
  \<open>execute_values\<close> sends the rows in pages of \<open>page_size = 100\<close>, one \<open>INSERT\<close>
  statement for each page, inside one transaction. An \<open>INSERT ... ON CONFLICT DO UPDATE\<close>
  statement that proposes the same \<open>call_id\<close> twice is rejected by the server (it may
  not affect a row a second time): the driver raises and nothing is committed.
\<close>

function paginate :: "nat \<Rightarrow> 'a list \<Rightarrow> 'a list list" where
  "paginate page_size xs =
     (if page_size = 0 \<or> xs = [] then []
      else take page_size xs # paginate page_size (drop page_size xs))"
  by pat_completeness auto
termination
  by (relation "measure (\<lambda>(page_size, xs). length xs)") auto

declare paginate.simps [simp del]

definition execute_page :: "datetime \<Rightarrow> CallRecord list \<Rightarrow> calls_table \<Rightarrow> calls_table option" where
  "execute_page db_now page t =
     (if distinct (map call_id page) then Some (foldl (\<lambda>acc r. upsert db_now r acc) t page)
      else None)"

fun execute_values :: "datetime \<Rightarrow> CallRecord list list \<Rightarrow> calls_table \<Rightarrow> calls_table option" where
  "execute_values db_now [] t = Some t"
| "execute_values db_now (page # pages) t =
     (case execute_page db_now page t of
        None \<Rightarrow> None
      | Some t' \<Rightarrow> execute_values db_now pages t')"

definition insert_call_records_batch ::
  "bool \<Rightarrow> datetime \<Rightarrow> CallRecord list \<Rightarrow> calls_table \<Rightarrow> nat \<times> calls_table" where
  "insert_call_records_batch db_error db_now call_records t =
     (if call_records = [] then (0, t)
      else if db_error then (0, t)
      else (case execute_values db_now (paginate 100 call_records) t of
              None \<Rightarrow> (0, t)
            | Some t' \<Rightarrow> (length call_records, t')))"

text \<open>
  \<open>mark_call_processed\<close>: \<open>UPDATE calls SET processed = TRUE WHERE call_id = %s\<close>; the
  trigger of the table sets \<open>updated_at\<close> of each updated row. The result says whether
  a row was updated.
\<close>

definition mark_call_processed ::
  "bool \<Rightarrow> datetime \<Rightarrow> json \<Rightarrow> calls_table \<Rightarrow> bool \<times> calls_table" where
  "mark_call_processed db_error db_now cid t =
     (if db_error then (False, t)
      else (length (filter (\<lambda>row. row_call_id row = cid) t) > 0,
            map (\<lambda>row. if row_call_id row = cid
                        then row \<lparr> row_processed := True, row_updated_at := db_now \<rparr>
                        else row) t))"

text \<open>The stored \<open>processed\<close> flag of a call: some row of this \<open>call_id\<close> has it set.\<close>

definition is_processed :: "calls_table \<Rightarrow> json \<Rightarrow> bool" where
  "is_processed t cid = (\<exists>row \<in> set t. row_call_id row = cid \<and> row_processed row)"

text \<open>The rows of a call, and whether a row carries the fourteen values of a record.\<close>

definition rows_of :: "calls_table \<Rightarrow> json \<Rightarrow> calls_row list" where
  "rows_of t cid = filter (\<lambda>row. row_call_id row = cid) t"






text \<open>The raw call of the happy-path scenario without its audio, as the parser returns it.\<close>

definition example_call :: CallRecord where
  "example_call =
     \<lparr> call_id = JStr ''A1'',
       timestamp = 1700000000000000,
       frequency = 0,
       talkgroup = Some ''55'',
       source = None,
       duration = 0,
       audio_url = JNull,
       audio_file_path = None,
       system_name = JNull,
       department = JNull,
       call_type = JNull,
       units = [],
       metadata = JDict [(''id'', JStr ''A1''), (''timestamp'', JInt 1700000000),
                         (''talkgroup'', JStr ''55'')],
       processed = False,
       created_at = 1700000100000000 \<rparr>"

section \<open>SystemMonitor.perform_health_check\<close>

datatype status = Healthy | Warning | Unhealthy

text \<open>
  The probes of one health check. The database probe either raises or returns the row
  of \<open>SELECT 1\<close> (\<open>DbRow False\<close>: \<open>fetchone\<close> gave nothing).
\<close>

datatype db_probe = DbRaises | DbRow bool

record probes =
  db_probe_result :: db_probe
  api_healthy :: bool
  disk_usage :: "(nat \<times> nat \<times> nat) option"
  memory_percent :: "real option"

record health_status =
  overall_status :: status
  database_status :: status
  api_status :: status
  disk_space_alert :: "bool option"
  memory_usage_alert :: "bool option"

text \<open>
  \<open>check_disk_space\<close>: \<open>usage\<close> is \<open>(total, used, free)\<close> of \<open>shutil.disk_usage\<close>, or
  \<open>None\<close> when it raises; a total of 0 raises ZeroDivisionError. The result is the
  \<open>alert\<close> entry of the returned dictionary, \<open>None\<close> for the error dictionary.
\<close>

definition check_disk_space :: "int \<Rightarrow> (nat \<times> nat \<times> nat) option \<Rightarrow> bool option" where
  "check_disk_space disk_space_threshold usage =
     (case usage of
        None \<Rightarrow> None
      | Some (total_bytes, used_bytes, free_bytes) \<Rightarrow>
          (if total_bytes = 0 then None
           else Some (real used_bytes / real total_bytes * 100
                        > real_of_int disk_space_threshold)))"

text \<open>\<open>get_memory_usage\<close>: \<open>None\<close> when psutil is missing or raises.\<close>

definition get_memory_usage :: "real option \<Rightarrow> bool option" where
  "get_memory_usage percent = (case percent of None \<Rightarrow> None | Some m \<Rightarrow> Some (m > 85))"

text \<open>\<open>info.get('alert', False)\<close>.\<close>

definition alert_of :: "bool option \<Rightarrow> bool" where
  "alert_of info = (case info of None \<Rightarrow> False | Some a \<Rightarrow> a)"

text \<open>
  \<open>s0\<close> to \<open>s4\<close> are the successive values of \<open>health_status['overall_status']\<close>.
\<close>

definition perform_health_check :: "int \<Rightarrow> probes \<Rightarrow> health_status" where
  "perform_health_check disk_space_threshold p =
     (let s0 = Healthy;
          db = (case db_probe_result p of
                  DbRaises \<Rightarrow> Unhealthy
                | DbRow r \<Rightarrow> (if r then Healthy else Unhealthy));
          s1 = (case db_probe_result p of DbRaises \<Rightarrow> Unhealthy | DbRow r \<Rightarrow> s0);
          api = (if api_healthy p then Healthy else Unhealthy);
          s2 = (if \<not> api_healthy p then Unhealthy else s1);
          disk_info = check_disk_space disk_space_threshold (disk_usage p);
          s3 = (if alert_of disk_info then Warning else s2);
          memory_info = get_memory_usage (memory_percent p);
          s4 = (if alert_of memory_info then Warning else s3)
      in \<lparr> overall_status = s4,
           database_status = db,
           api_status = api,
           disk_space_alert = disk_info,
           memory_usage_alert = memory_info \<rparr>)"

section \<open>AudioProcessor\<close>

text \<open>
  The files on disk: a path holds the bytes of its file, or nothing. The configuration
  values the three operations read (\<open>max_file_size\<close> is in bytes, after the conversion
  from megabytes; the quality and compression settings only select encoder parameters
  and are left out).
\<close>

type_synonym bytes = string
type_synonym path = string
type_synonym filesystem = "path \<rightharpoonup> bytes"

record AudioProcessor =
  storage_path :: path
  audio_format :: string
  max_file_size :: int
  normalize_audio :: bool
  auto_gain_control :: bool
  retention_days :: int

subsection \<open>pathlib\<close>

text \<open>\<open>storage_path / filename\<close>: an absolute right operand replaces the left one.\<close>

definition path_join :: "path \<Rightarrow> string \<Rightarrow> path" where
  "path_join base filename =
     (case filename of
        [] \<Rightarrow> base
      | c # cs \<Rightarrow> (if c = CHR ''/'' then filename else base @ ''/'' @ filename))"

text \<open>\<open>p.name\<close>: the last component.\<close>

definition path_name :: "path \<Rightarrow> string" where
  "path_name p = rev (takeWhile (\<lambda>c. c \<noteq> CHR ''/'') (rev p))"

text \<open>
  \<open>p.suffix\<close>: from the last dot of the name on, when that dot is neither the first nor
  the last character of the name; otherwise empty.
\<close>

definition path_suffix :: "path \<Rightarrow> string" where
  "path_suffix p =
     (let name = path_name p;
          ext = rev (takeWhile (\<lambda>c. c \<noteq> CHR ''.'') (rev name))
      in if CHR ''.'' \<in> set name \<and> length ext + 1 < length name \<and> ext \<noteq> []
         then CHR ''.'' # ext else [])"

text \<open>
  \<open>p.with_suffix(s)\<close> for \<open>s\<close> that starts with a dot: ValueError (\<open>None\<close>) for an empty
  name, for the suffix \<open>.\<close> alone and for a suffix that holds a separator.
\<close>

definition with_suffix :: "path \<Rightarrow> string \<Rightarrow> path option" where
  "with_suffix p s =
     (let name = path_name p in
      if name = [] \<or> s = ''.'' \<or> CHR ''/'' \<in> set s then None
      else Some (take (length p - length (path_suffix p)) p @ s))"

text \<open>\<open>str.lower\<close> on ASCII letters, and \<open>lstrip('.')\<close>.\<close>

definition lower_char :: "char \<Rightarrow> char" where
  "lower_char c =
     (let n = (of_char c :: nat) in if 65 \<le> n \<and> n \<le> 90 then char_of (n + 32) else c)"

definition lower :: "string \<Rightarrow> string" where
  "lower s = map lower_char s"

definition lstrip_dot :: "string \<Rightarrow> string" where
  "lstrip_dot s = dropWhile (\<lambda>c. c = CHR ''.'') s"

subsection \<open>What the network and the codec library do\<close>

text \<open>
  The header \<open>content-length\<close> of a response: absent or empty, a string that \<open>int\<close>
  reads, or a string on which \<open>int\<close> raises ValueError.
\<close>

datatype content_length = NoHeader | HeaderInt int | HeaderBad

text \<open>
  The body, as \<open>iter_content\<close> delivers it: the chunks in order, after which the
  iteration ends (\<open>Complete\<close>) or raises (\<open>Broken\<close>: connection lost, bad encoding).
\<close>

datatype stream_end = Complete | Broken

record response =
  status_code :: nat
  content_length_header :: content_length
  chunks :: "bytes list"
  stream_end :: stream_end

text \<open>\<open>session.get\<close> raises (\<open>ConnectionFailed\<close>) or returns the response.\<close>

datatype http_result = ConnectionFailed | Response response

text \<open>
  A decoded \<open>AudioSegment\<close>: its peak amplitude \<open>audio.max\<close> and its samples.
\<close>

record AudioSegment =
  seg_max :: int
  seg_data :: bytes

text \<open>
  \<open>audio.export\<close> raises or returns; in both cases it has written the given bytes to
  the output path, or (\<open>None\<close>) has left the path as it was.
\<close>

datatype export_result = ExportRaises "bytes option" | ExportReturns "bytes option"

text \<open>
  Everything outside the program that the audio handling of one call meets: the clock's
  file-name stamp, the HTTP exchange, whether \<open>open\<close> raises, the codec library
  (\<open>None\<close>: the call raises), whether \<open>unlink\<close> of the original raises, and whether the
  database raises in \<open>mark_call_processed\<close>.
\<close>

record audio_io =
  stamp :: string
  http :: http_result
  open_fails :: bool
  from_file :: "bytes \<Rightarrow> AudioSegment option"
  compress_dynamic_range :: "AudioSegment \<Rightarrow> AudioSegment option"
  export :: "AudioSegment \<Rightarrow> string \<Rightarrow> export_result"
  unlink_fails :: bool
  mark_error :: bool

subsection \<open>download_audio\<close>

text \<open>
  The loop over the chunks, with \<open>downloaded_bytes\<close>. The result says whether the size
  limit aborted the download (the partial file is then unlinked).
\<close>

fun write_chunks :: "int \<Rightarrow> path \<Rightarrow> bytes list \<Rightarrow> nat \<Rightarrow> filesystem \<Rightarrow> bool \<times> filesystem" where
  "write_chunks limit file_path [] downloaded_bytes fs = (False, fs)"
| "write_chunks limit file_path (chunk # rest) downloaded_bytes fs =
     (if chunk \<noteq> [] then
        (let fs1 = fs(file_path \<mapsto> (case fs file_path of None \<Rightarrow> chunk
                                                    | Some written \<Rightarrow> written @ chunk));
             n = downloaded_bytes + length chunk
         in if limit > 0 \<and> int n > limit then (True, fs1(file_path := None))
            else write_chunks limit file_path rest n fs1)
      else write_chunks limit file_path rest downloaded_bytes fs)"

definition download_path :: "AudioProcessor \<Rightarrow> pyenv \<Rightarrow> audio_io \<Rightarrow> json \<Rightarrow> path" where
  "download_path cfg env io cid =
     path_join (storage_path cfg)
       (py_str env cid @ ''_'' @ stamp io @ ''.'' @ audio_format cfg)"

definition stream_to_file ::
  "AudioProcessor \<Rightarrow> audio_io \<Rightarrow> response \<Rightarrow> path \<Rightarrow> filesystem \<Rightarrow> path option \<times> filesystem" where
  "stream_to_file cfg io r file_path fs =
     (if open_fails io then (None, fs)
      else (case write_chunks (max_file_size cfg) file_path (chunks r) 0
                   (fs(file_path \<mapsto> [])) of
              (True, fs') \<Rightarrow> (None, fs')
            | (False, fs') \<Rightarrow>
                (case stream_end r of
                   Broken \<Rightarrow> (None, fs')
                 | Complete \<Rightarrow> (Some file_path, fs'))))"

definition download_audio ::
  "AudioProcessor \<Rightarrow> pyenv \<Rightarrow> audio_io \<Rightarrow> filesystem \<Rightarrow> json \<Rightarrow> json
     \<Rightarrow> path option \<times> filesystem" where
  "download_audio cfg env io fs url cid =
     (if \<not> truthy url then (None, fs)
      else
        (let file_path = download_path cfg env io cid in
         case http io of
           ConnectionFailed \<Rightarrow> (None, fs)
         | Response r \<Rightarrow>
             (if 400 \<le> status_code r \<and> status_code r < 600 then (None, fs)
              else (case content_length_header r of
                      HeaderBad \<Rightarrow> (None, fs)
                    | HeaderInt n \<Rightarrow>
                        (if n > max_file_size cfg then (None, fs)
                         else stream_to_file cfg io r file_path fs)
                    | NoHeader \<Rightarrow> stream_to_file cfg io r file_path fs))))"

subsection \<open>process_audio\<close>

text \<open>
  \<open>_normalize_audio\<close> returns a silent segment as it is. For any other segment it
  evaluates \<open>float(gain).bit_length()\<close>, and a Python float has no \<open>bit_length\<close>: the
  AttributeError (\<open>None\<close>) reaches the handler of \<open>process_audio\<close>.
\<close>

definition normalize :: "AudioSegment \<Rightarrow> AudioSegment option" where
  "normalize audio = (if seg_max audio = 0 then Some audio else None)"

definition apply_agc :: "audio_io \<Rightarrow> AudioSegment \<Rightarrow> AudioSegment option" where
  "apply_agc io audio = compress_dynamic_range io audio"

definition write_output :: "filesystem \<Rightarrow> path \<Rightarrow> bytes option \<Rightarrow> filesystem" where
  "write_output fs out written = (case written of None \<Rightarrow> fs | Some b \<Rightarrow> fs(out \<mapsto> b))"

definition export_audio ::
  "AudioProcessor \<Rightarrow> audio_io \<Rightarrow> filesystem \<Rightarrow> path \<Rightarrow> AudioSegment
     \<Rightarrow> path option \<times> filesystem" where
  "export_audio cfg io fs file_path audio =
     (if audio_format cfg \<noteq> lstrip_dot (lower (path_suffix file_path)) then
        (case with_suffix file_path (CHR ''.'' # audio_format cfg) of
           None \<Rightarrow> (None, fs)
         | Some processed_path \<Rightarrow>
             (case export io audio (audio_format cfg) of
                ExportRaises written \<Rightarrow> (None, write_output fs processed_path written)
              | ExportReturns written \<Rightarrow>
                  (let fs1 = write_output fs processed_path written in
                   if processed_path \<noteq> file_path \<and> fs1 processed_path \<noteq> None
                   then (if unlink_fails io then (None, fs1)
                         else (Some processed_path, fs1(file_path := None)))
                   else (Some processed_path, fs1))))
      else
        (case export io audio (audio_format cfg) of
           ExportRaises written \<Rightarrow> (None, write_output fs file_path written)
         | ExportReturns written \<Rightarrow> (Some file_path, write_output fs file_path written)))"

definition process_audio ::
  "AudioProcessor \<Rightarrow> audio_io \<Rightarrow> filesystem \<Rightarrow> path \<Rightarrow> path option \<times> filesystem" where
  "process_audio cfg io fs file_path =
     (case fs file_path of
        None \<Rightarrow> (None, fs)
      | Some content \<Rightarrow>
          (case from_file io content of
             None \<Rightarrow> (None, fs)
           | Some loaded \<Rightarrow>
               (case (if normalize_audio cfg then normalize loaded else Some loaded) of
                  None \<Rightarrow> (None, fs)
                | Some normalized \<Rightarrow>
                    (case (if auto_gain_control cfg then apply_agc io normalized
                           else Some normalized) of
                       None \<Rightarrow> (None, fs)
                     | Some audio \<Rightarrow> export_audio cfg io fs file_path audio))))"

subsection \<open>cleanup_old_files\<close>

text \<open>
  The listing \<open>storage_path.glob("*")\<close>: the entries of the storage directory itself.
  \<open>st_mtime\<close> is the modification time as the naive local \<open>datetime\<close> the code compares
  (in microseconds); \<open>stat_fails\<close> and \<open>unlink_fails_on\<close> say that the call raises for
  this entry, which ends the loop in the handler.
\<close>

record dir_entry =
  entry_name :: string
  is_file :: bool
  st_mtime :: datetime
  stat_fails :: bool
  unlink_fails_on :: bool

text \<open>\<open>timedelta(days=d)\<close> in microseconds.\<close>

definition timedelta_days :: "int \<Rightarrow> int" where
  "timedelta_days d = d * 86400000000"

fun cleanup_loop :: "datetime \<Rightarrow> dir_entry list \<Rightarrow> nat \<Rightarrow> nat \<times> dir_entry list" where
  "cleanup_loop cutoff_date [] deleted_count = (deleted_count, [])"
| "cleanup_loop cutoff_date (e # es) deleted_count =
     (if is_file e then
        (if stat_fails e then (deleted_count, e # es)
         else if st_mtime e < cutoff_date then
           (if unlink_fails_on e then (deleted_count, e # es)
            else cleanup_loop cutoff_date es (deleted_count + 1))
         else (case cleanup_loop cutoff_date es deleted_count of
                 (n, kept) \<Rightarrow> (n, e # kept)))
      else (case cleanup_loop cutoff_date es deleted_count of
              (n, kept) \<Rightarrow> (n, e # kept)))"

definition cleanup_old_files ::
  "AudioProcessor \<Rightarrow> datetime \<Rightarrow> dir_entry list \<Rightarrow> nat \<times> dir_entry list" where
  "cleanup_old_files cfg now listing =
     (if retention_days cfg \<le> 0 then (0, listing)
      else cleanup_loop (now - timedelta_days (retention_days cfg)) listing 0)"

text \<open>An entry is expired when it is a file modified before the cutoff.\<close>

definition expired :: "datetime \<Rightarrow> dir_entry \<Rightarrow> bool" where
  "expired cutoff_date e \<longleftrightarrow> is_file e \<and> st_mtime e < cutoff_date"

text \<open>A configuration (limit of 10 bytes) and a world in which everything succeeds.\<close>

definition example_cfg :: AudioProcessor where
  "example_cfg =
     \<lparr> storage_path = ''/audio'', audio_format = ''mp3'', max_file_size = 10,
       normalize_audio = True, auto_gain_control = False, retention_days = 30 \<rparr>"

definition example_io :: audio_io where
  "example_io =
     \<lparr> stamp = ''20240101_120000'',
       http = Response \<lparr> status_code = 200, content_length_header = NoHeader,
                         chunks = [''RIFF'', '''', ''data''], stream_end = Complete \<rparr>,
       open_fails = False,
       from_file = (\<lambda>b. Some \<lparr> seg_max = 0, seg_data = b \<rparr>),
       compress_dynamic_range = (\<lambda>a. Some a),
       export = (\<lambda>a fmt. ExportReturns (Some (seg_data a))),
       unlink_fails = False,
       mark_error = False \<rparr>"

section \<open>RdioScannerMonitor: one poll cycle\<close>

text \<open>
  \<open>_process_call_audio\<close>: download, transcode, and only when both returned a path set
  \<open>audio_file_path\<close> and \<open>processed\<close> on the record and mark the row. Every exception
  of the two steps is already a \<open>None\<close> result of theirs.
\<close>

definition process_call_audio ::
  "AudioProcessor \<Rightarrow> pyenv \<Rightarrow> datetime \<Rightarrow> audio_io \<Rightarrow> CallRecord \<Rightarrow> calls_table \<Rightarrow> filesystem
     \<Rightarrow> CallRecord \<times> calls_table \<times> filesystem" where
  "process_call_audio cfg env db_now io call_record t fs =
     (case download_audio cfg env io fs (audio_url call_record) (call_id call_record) of
        (None, fs1) \<Rightarrow> (call_record, t, fs1)
      | (Some audio_path, fs1) \<Rightarrow>
          (case process_audio cfg io fs1 audio_path of
             (None, fs2) \<Rightarrow> (call_record, t, fs2)
           | (Some processed_path, fs2) \<Rightarrow>
               (call_record \<lparr> audio_file_path := Some processed_path, processed := True \<rparr>,
                snd (mark_call_processed (mark_error io) db_now (call_id call_record) t),
                fs2)))"

text \<open>
  The path of the transcoded file when the download and the transcoding of a record
  both succeed on the disk \<open>fs\<close>, and \<open>None\<close> otherwise.
\<close>

definition audio_acquired ::
  "AudioProcessor \<Rightarrow> pyenv \<Rightarrow> audio_io \<Rightarrow> filesystem \<Rightarrow> CallRecord \<Rightarrow> path option" where
  "audio_acquired cfg env io fs call_record =
     (case download_audio cfg env io fs (audio_url call_record) (call_id call_record) of
        (None, fs1) \<Rightarrow> None
      | (Some audio_path, fs1) \<Rightarrow> fst (process_audio cfg io fs1 audio_path))"

text \<open>
  What one cycle meets outside the program: the UUID drawn while the \<open>k\<close>-th raw call
  is parsed, whether the database raises in the batch insert, and the world of the
  audio handling of the \<open>k\<close>-th call record.
\<close>

record poll_io =
  uuid4 :: "nat \<Rightarrow> string"
  batch_error :: bool
  audio :: "nat \<Rightarrow> audio_io"

record monitor_state =
  db :: calls_table
  files :: filesystem
  last_poll_time :: "datetime option"

text \<open>The parsing loop: a raw call whose parse is \<open>None\<close> is skipped.\<close>

fun parse_calls :: "pyenv \<Rightarrow> datetime \<Rightarrow> (nat \<Rightarrow> string) \<Rightarrow> nat \<Rightarrow> json list \<Rightarrow> CallRecord list" where
  "parse_calls env now fresh k [] = []"
| "parse_calls env now fresh k (call_data # rest) =
     (case parse_call_record env now (fresh k) call_data of
        None \<Rightarrow> parse_calls env now fresh (Suc k) rest
      | Some call_record \<Rightarrow> call_record # parse_calls env now fresh (Suc k) rest)"

text \<open>The audio loop: only a record with a true \<open>audio_url\<close> is handled.\<close>

fun process_calls_audio ::
  "AudioProcessor \<Rightarrow> pyenv \<Rightarrow> datetime \<Rightarrow> (nat \<Rightarrow> audio_io) \<Rightarrow> nat \<Rightarrow> CallRecord list
     \<Rightarrow> calls_table \<Rightarrow> filesystem \<Rightarrow> CallRecord list \<times> calls_table \<times> filesystem" where
  "process_calls_audio cfg env db_now world k [] t fs = ([], t, fs)"
| "process_calls_audio cfg env db_now world k (call_record # rest) t fs =
     (if truthy (audio_url call_record) then
        (case process_call_audio cfg env db_now (world k) call_record t fs of
           (r', t', fs') \<Rightarrow>
             (case process_calls_audio cfg env db_now world (Suc k) rest t' fs' of
                (rs', t'', fs'') \<Rightarrow> (r' # rs', t'', fs'')))
      else
        (case process_calls_audio cfg env db_now world (Suc k) rest t fs of
           (rs', t', fs') \<Rightarrow> (call_record # rs', t', fs')))"

text \<open>
  \<open>poll_and_process_calls\<close>, on the raw calls \<open>fetch_calls\<close> returned. The second
  component is the list \<open>call_records\<close> as the cycle leaves it (empty when the cycle
  returns early). \<open>now\<close> is the program's clock in this cycle, \<open>db_now\<close> the server's.
  The metrics of the system monitor are not modelled.
\<close>

definition poll_and_process_calls ::
  "AudioProcessor \<Rightarrow> pyenv \<Rightarrow> datetime \<Rightarrow> datetime \<Rightarrow> poll_io \<Rightarrow> json list \<Rightarrow> monitor_state
     \<Rightarrow> monitor_state \<times> CallRecord list" where
  "poll_and_process_calls cfg env now db_now world calls_data st =
     (if calls_data = [] then (st, [])
      else
        (let call_records = parse_calls env now (uuid4 world) 0 calls_data in
         if call_records = [] then (st, [])
         else
           (case insert_call_records_batch (batch_error world) db_now call_records (db st) of
              (inserted_count, t1) \<Rightarrow>
                (case process_calls_audio cfg env db_now (audio world) 0 call_records t1
                        (files st) of
                   (call_records', t2, fs2) \<Rightarrow>
                     (\<lparr> db = t2, files = fs2, last_poll_time = Some now \<rparr>,
                      call_records')))))"

definition example_world :: poll_io where
  "example_world = \<lparr> uuid4 = (\<lambda>k. ''uuid''), batch_error = False, audio = (\<lambda>k. example_io) \<rparr>"

definition initial_state :: monitor_state where
  "initial_state = \<lparr> db = [], files = Map.empty, last_poll_time = None \<rparr>"

text \<open>
  Three raw calls of one response: a call without audio, a string where a call should
  be, and a call with audio; and the record the parser returns for the third.
\<close>

definition example_calls :: "json list" where
  "example_calls =
     [JDict [(''id'', JStr ''A1''), (''timestamp'', JInt 1700000000), (''talkgroup'', JStr ''55'')],
      JStr ''garbage'',
      JDict [(''id'', JStr ''A2''), (''audio_url'', JStr ''http://x/a.wav'')]]"

definition call_A2 :: CallRecord where
  "call_A2 =
     \<lparr> call_id = JStr ''A2'',
       timestamp = 1700000100000000,
       frequency = 0,
       talkgroup = None,
       source = None,
       duration = 0,
       audio_url = JStr ''http://x/a.wav'',
       audio_file_path = None,
       system_name = JNull,
       department = JNull,
       call_type = JNull,
       units = [],
       metadata = JDict [(''id'', JStr ''A2''), (''audio_url'', JStr ''http://x/a.wav'')],
       processed = False,
       created_at = 1700000100000000 \<rparr>"

section \<open>Properties\<close>

text \<open>
  C2, evaluated where it fails: the API probe fails, so the \<open>api\<close> component is
  unhealthy, and the disk-space alert fires (95 percent used, threshold 90). The later
  assignment of \<open>warning\<close> replaces the \<open>unhealthy\<close> set before it: the overall
  status is \<open>warning\<close>, not the worst component status.
\<close>

theorem perform_health_check_alert_hides_unhealthy:
  "overall_status (perform_health_check 90
      \<lparr> db_probe_result = DbRow True, api_healthy = False,
        disk_usage = Some (100, 95, 5), memory_percent = Some 40 \<rparr>) = Warning
   \<and> api_status (perform_health_check 90
      \<lparr> db_probe_result = DbRow True, api_healthy = False,
        disk_usage = Some (100, 95, 5), memory_percent = Some 40 \<rparr>) = Unhealthy"
  by (simp add: perform_health_check_def check_disk_space_def get_memory_usage_def
      alert_of_def)

text \<open>
  C9, evaluated where it fails: the raw call \<open>{"id": 12345}\<close> is accepted, and the
  \<open>call_id\<close> of its record is the integer 12345 itself, not a string. (\<open>talkgroup\<close> and
  \<open>source\<close> go through \<open>str\<close>; \<open>call_id\<close> does not.)
\<close>

theorem parse_call_record_numeric_id:
  "map_option call_id
     (parse_call_record example_env 1700000100000000 ''uuid-1'' (JDict [(''id'', JInt 12345)]))
     = Some (JInt 12345)
   \<and> \<not> is_str (JInt 12345)"
  by (simp add: parse_call_record_def parse_timestamp_def parse_float_field_def
      dict_get_def dict_get_default_def py_or_def example_env_def Let_def)

subsection \<open>The calls table\<close>



























subsection \<open>Audio files\<close>

lemma write_chunks_abort:
  "0 < limit \<Longrightarrow> limit < int (n + length (concat cs)) \<Longrightarrow> int n \<le> limit \<Longrightarrow>
   write_chunks limit p cs n fs = (aborted, fs') \<Longrightarrow> aborted \<and> fs' p = None"
proof (induction cs arbitrary: n fs)
  case Nil
  then show ?case by simp
next
  case (Cons c cs)
  show ?case
  proof (cases "c = []")
    case True
    with Cons.prems have step: "write_chunks limit p cs n fs = (aborted, fs')"
      and total: "limit < int (n + length (concat cs))"
      by simp_all
    from Cons.IH[OF Cons.prems(1) total Cons.prems(3) step] show ?thesis .
  next
    case False
    let ?fs1 = "fs(p \<mapsto> (case fs p of None \<Rightarrow> c | Some written \<Rightarrow> written @ c))"
    show ?thesis
    proof (cases "limit < int (n + length c)")
      case True
      with False Cons.prems show ?thesis by (auto simp: Let_def)
    next
      case over: False
      with False Cons.prems(4)
      have step: "write_chunks limit p cs (n + length c) ?fs1 = (aborted, fs')"
        by (simp add: Let_def)
      have "limit < int ((n + length c) + length (concat cs))"
        using Cons.prems(2) by (simp add: add.assoc)
      with Cons.IH[OF Cons.prems(1) _ _ step] over show ?thesis by simp
    qed
  qed
qed

lemma stream_to_file_guard:
  assumes "0 < max_file_size cfg"
    and "max_file_size cfg < int (length (concat (chunks r)))"
  shows "fst (stream_to_file cfg io r file_path fs) = None"
    and "\<not> open_fails io \<Longrightarrow> snd (stream_to_file cfg io r file_path fs) file_path = None"
    and "open_fails io \<Longrightarrow> snd (stream_to_file cfg io r file_path fs) = fs"
proof -
  obtain a fs' where w: "write_chunks (max_file_size cfg) file_path (chunks r) 0
      (fs(file_path \<mapsto> [])) = (a, fs')"
    by (cases "write_chunks (max_file_size cfg) file_path (chunks r) 0
      (fs(file_path \<mapsto> []))") auto
  from write_chunks_abort[OF assms(1) _ _ w] assms
  have ab: "a" "fs' file_path = None" by simp_all
  with w show "fst (stream_to_file cfg io r file_path fs) = None"
    by (simp add: stream_to_file_def)
  from ab w show "\<not> open_fails io \<Longrightarrow> snd (stream_to_file cfg io r file_path fs) file_path = None"
    by (simp add: stream_to_file_def)
  show "open_fails io \<Longrightarrow> snd (stream_to_file cfg io r file_path fs) = fs"
    by (simp add: stream_to_file_def)
qed

text \<open>
  C4, as amended: a response whose Content-Length exceeds the maximum is refused before
  any file is opened (result \<open>None\<close>, the disk unchanged); and with a positive maximum,
  a body whose bytes exceed the maximum gives \<open>None\<close> and leaves no file at the path of
  the download (the disk is unchanged, or the partial file has been unlinked).
\<close>

theorem download_size_guard:
  "(http io = Response r \<longrightarrow> content_length_header r = HeaderInt n \<longrightarrow>
      max_file_size cfg < n \<longrightarrow>
      download_audio cfg env io fs url cid = (None, fs))
   \<and> (0 < max_file_size cfg \<longrightarrow> http io = Response r \<longrightarrow>
       max_file_size cfg < int (length (concat (chunks r))) \<longrightarrow>
       fst (download_audio cfg env io fs url cid) = None
       \<and> (snd (download_audio cfg env io fs url cid) = fs
          \<or> snd (download_audio cfg env io fs url cid) (download_path cfg env io cid) = None))"
proof (intro conjI impI)
  assume "http io = Response r" "content_length_header r = HeaderInt n" "max_file_size cfg < n"
  then show "download_audio cfg env io fs url cid = (None, fs)"
    by (simp add: download_audio_def Let_def)
next
  assume a: "0 < max_file_size cfg" "http io = Response r"
    "max_file_size cfg < int (length (concat (chunks r)))"
  let ?p = "download_path cfg env io cid"
  have s1: "fst (stream_to_file cfg io r ?p fs) = None"
    using a by (intro stream_to_file_guard)
  from a show "fst (download_audio cfg env io fs url cid) = None"
    by (simp add: download_audio_def Let_def s1 split: content_length.splits)
next
  assume a: "0 < max_file_size cfg" "http io = Response r"
    "max_file_size cfg < int (length (concat (chunks r)))"
  let ?p = "download_path cfg env io cid"
  have s2: "snd (stream_to_file cfg io r ?p fs) = fs \<or> snd (stream_to_file cfg io r ?p fs) ?p = None"
    using stream_to_file_guard(2,3)[OF a(1,3), of io ?p fs] by (cases "open_fails io") simp_all
  with a show "snd (download_audio cfg env io fs url cid) = fs
          \<or> snd (download_audio cfg env io fs url cid) (download_path cfg env io cid) = None"
    by (auto simp: download_audio_def Let_def split: content_length.splits)
qed

theorem download_size_guard_witness:
  "fst (download_audio example_cfg example_env
          (example_io \<lparr> http := Response \<lparr> status_code = 200,
               content_length_header = HeaderInt 11, chunks = [''RIFF''],
               stream_end = Complete \<rparr> \<rparr>)
          Map.empty (JStr ''http://x/a.wav'') (JStr ''A1'')) = None
   \<and> fst (download_audio example_cfg example_env
          (example_io \<lparr> http := Response \<lparr> status_code = 200,
               content_length_header = NoHeader, chunks = [''RIFF'', ''0123456''],
               stream_end = Complete \<rparr> \<rparr>)
          Map.empty (JStr ''http://x/a.wav'') (JStr ''A1'')) = None
   \<and> snd (download_audio example_cfg example_env
          (example_io \<lparr> http := Response \<lparr> status_code = 200,
               content_length_header = NoHeader, chunks = [''RIFF'', ''0123456''],
               stream_end = Complete \<rparr> \<rparr>)
          Map.empty (JStr ''http://x/a.wav'') (JStr ''A1''))
         ''/audio/A1_20240101_120000.mp3'' = None"
  using download_size_guard [of
      "example_io \<lparr> http := Response \<lparr> status_code = 200,
               content_length_header = HeaderInt 11, chunks = [''RIFF''],
               stream_end = Complete \<rparr> \<rparr>"
      "\<lparr> status_code = 200, content_length_header = HeaderInt 11, chunks = [''RIFF''],
               stream_end = Complete \<rparr>" 11 example_cfg example_env Map.empty
      "JStr ''http://x/a.wav''" "JStr ''A1''"]
    download_size_guard [of
      "example_io \<lparr> http := Response \<lparr> status_code = 200,
               content_length_header = NoHeader, chunks = [''RIFF'', ''0123456''],
               stream_end = Complete \<rparr> \<rparr>"
      "\<lparr> status_code = 200, content_length_header = NoHeader,
         chunks = [''RIFF'', ''0123456''], stream_end = Complete \<rparr>" 0 example_cfg
      example_env Map.empty "JStr ''http://x/a.wav''" "JStr ''A1''"]
  by (auto simp: example_cfg_def example_io_def example_env_def download_path_def
      path_join_def py_str_def)

text \<open>
  C4 as stated fails for a maximum of 0: the check inside the loop is guarded by
  \<open>max_file_size > 0\<close>, so a body of four bytes with no Content-Length is written
  and returned although it exceeds the configured maximum.
\<close>

theorem download_size_guard_off_at_zero:
  "fst (download_audio (example_cfg \<lparr> max_file_size := 0 \<rparr>) example_env
          (example_io \<lparr> http := Response \<lparr> status_code = 200,
               content_length_header = NoHeader, chunks = [''RIFF''],
               stream_end = Complete \<rparr> \<rparr>)
          Map.empty (JStr ''http://x/a.wav'') (JStr ''A1''))
      = Some ''/audio/A1_20240101_120000.mp3''
   \<and> snd (download_audio (example_cfg \<lparr> max_file_size := 0 \<rparr>) example_env
          (example_io \<lparr> http := Response \<lparr> status_code = 200,
               content_length_header = NoHeader, chunks = [''RIFF''],
               stream_end = Complete \<rparr> \<rparr>)
          Map.empty (JStr ''http://x/a.wav'') (JStr ''A1''))
         ''/audio/A1_20240101_120000.mp3'' = Some ''RIFF''
   \<and> max_file_size (example_cfg \<lparr> max_file_size := 0 \<rparr>) < int (length (concat [''RIFF'']))"
  by (simp add: download_audio_def stream_to_file_def download_path_def path_join_def
      py_str_def example_cfg_def example_io_def example_env_def Let_def)

lemma write_chunks_complete:
  "\<not> (0 < limit \<and> limit < int (n + length (concat cs))) \<Longrightarrow> fs p = Some w \<Longrightarrow>
   write_chunks limit p cs n fs = (False, fs(p \<mapsto> w @ concat cs))"
proof (induction cs arbitrary: n fs w)
  case Nil
  then show ?case by (simp add: map_upd_triv)
next
  case (Cons c cs)
  show ?case
  proof (cases "c = []")
    case True
    with Cons.prems Cons.IH[of n fs w] show ?thesis by simp
  next
    case False
    let ?fs1 = "fs(p \<mapsto> w @ c)"
    have small: "\<not> (0 < limit \<and> limit < int (n + length c))"
      using Cons.prems(1) by auto
    have rest: "\<not> (0 < limit \<and> limit < int ((n + length c) + length (concat cs)))"
      using Cons.prems(1) by (simp add: add.assoc)
    have "write_chunks limit p cs (n + length c) ?fs1 = (False, ?fs1(p \<mapsto> (w @ c) @ concat cs))"
      by (rule Cons.IH[OF rest]) simp
    with False small Cons.prems(2) show ?thesis by (auto simp: Let_def fun_upd_def)
  qed
qed

text \<open>
  C10: when the request is accepted, the file is opened, the size limit is not hit and
  the stream then breaks, \<open>download_audio\<close> returns \<open>None\<close> and the file holds the
  chunks received so far: the partial file is left on disk.
\<close>

theorem download_network_error_leaves_partial_file:
  assumes "truthy url"
    and "http io = Response r"
    and "\<not> (400 \<le> status_code r \<and> status_code r < 600)"
    and "case content_length_header r of
           NoHeader \<Rightarrow> True | HeaderInt n \<Rightarrow> n \<le> max_file_size cfg | HeaderBad \<Rightarrow> False"
    and "\<not> open_fails io"
    and "\<not> (0 < max_file_size cfg \<and> max_file_size cfg < int (length (concat (chunks r))))"
    and "stream_end r = Broken"
  shows "download_audio cfg env io fs url cid
         = (None, fs(download_path cfg env io cid \<mapsto> concat (chunks r)))"
proof -
  let ?p = "download_path cfg env io cid"
  have "write_chunks (max_file_size cfg) ?p (chunks r) 0 (fs(?p \<mapsto> []))
        = (False, (fs(?p \<mapsto> []))(?p \<mapsto> [] @ concat (chunks r)))"
    using assms(6) by (intro write_chunks_complete) simp_all
  then have "stream_to_file cfg io r ?p fs = (None, fs(?p \<mapsto> concat (chunks r)))"
    using assms(5,7) by (simp add: stream_to_file_def)
  with assms(1-4) show ?thesis
    by (auto simp: download_audio_def Let_def split: content_length.splits)
qed

theorem download_network_error_leaves_partial_file_witness:
  "fst (download_audio example_cfg example_env
          (example_io \<lparr> http := Response \<lparr> status_code = 200,
               content_length_header = HeaderInt 10, chunks = [''RIFF'', ''da''],
               stream_end = Broken \<rparr> \<rparr>)
          Map.empty (JStr ''http://x/a.wav'') (JStr ''A1'')) = None
   \<and> snd (download_audio example_cfg example_env
          (example_io \<lparr> http := Response \<lparr> status_code = 200,
               content_length_header = HeaderInt 10, chunks = [''RIFF'', ''da''],
               stream_end = Broken \<rparr> \<rparr>)
          Map.empty (JStr ''http://x/a.wav'') (JStr ''A1''))
        ''/audio/A1_20240101_120000.mp3'' = Some ''RIFFda''"
  using download_network_error_leaves_partial_file [of "JStr ''http://x/a.wav''"
      "example_io \<lparr> http := Response \<lparr> status_code = 200,
               content_length_header = HeaderInt 10, chunks = [''RIFF'', ''da''],
               stream_end = Broken \<rparr> \<rparr>"
      "\<lparr> status_code = 200, content_length_header = HeaderInt 10,
         chunks = [''RIFF'', ''da''], stream_end = Broken \<rparr>"
      example_cfg example_env Map.empty "JStr ''A1''"]
  by (simp add: example_cfg_def example_io_def example_env_def download_path_def
      path_join_def py_str_def)

lemma cleanup_loop_no_errors:
  "\<forall>e \<in> set l. \<not> stat_fails e \<and> \<not> unlink_fails_on e \<Longrightarrow>
   cleanup_loop c l n = (n + length (filter (expired c) l), filter (\<lambda>e. \<not> expired c e) l)"
  by (induction l arbitrary: n) (auto simp: expired_def)

lemma cleanup_loop_keeps_unexpired:
  "filter (\<lambda>e. \<not> expired c e) (snd (cleanup_loop c l n)) = filter (\<lambda>e. \<not> expired c e) l"
proof (induction l arbitrary: n)
  case Nil
  show ?case by simp
next
  case (Cons a l)
  obtain m kept where r: "cleanup_loop c l n = (m, kept)"
    by (cases "cleanup_loop c l n") auto
  obtain m' kept' where r': "cleanup_loop c l (n + 1) = (m', kept')"
    by (cases "cleanup_loop c l (n + 1)") auto
  from Cons.IH[of n] r
  have 1: "filter (\<lambda>e. \<not> expired c e) kept = filter (\<lambda>e. \<not> expired c e) l"
    by simp
  from Cons.IH[of "n + 1"] r'
  have 2: "filter (\<lambda>e. \<not> expired c e) kept' = filter (\<lambda>e. \<not> expired c e) l"
    by simp
  have 3: "expired c a = (is_file a \<and> st_mtime a < c)"
    by (simp add: expired_def)
  show ?case using 1 2 3 r r' by simp
qed

text \<open>
  C8: with \<open>retention_days \<le> 0\<close> nothing is deleted and the count is 0. With
  \<open>retention_days = D > 0\<close> and no failing \<open>stat\<close> or \<open>unlink\<close>, exactly the files
  modified more than \<open>D\<close> days before \<open>now\<close> are deleted and counted. In every case
  (errors or not) every entry that is not such a file survives.
\<close>

theorem cleanup_old_files_retention:
  "(retention_days cfg \<le> 0 \<longrightarrow> cleanup_old_files cfg now l = (0, l))
   \<and> (0 < retention_days cfg \<longrightarrow>
        (\<forall>e \<in> set l. \<not> stat_fails e \<and> \<not> unlink_fails_on e) \<longrightarrow>
        cleanup_old_files cfg now l
          = (length (filter (expired (now - timedelta_days (retention_days cfg))) l),
             filter (\<lambda>e. \<not> expired (now - timedelta_days (retention_days cfg)) e) l))
   \<and> filter (\<lambda>e. \<not> expired (now - timedelta_days (retention_days cfg)) e)
         (snd (cleanup_old_files cfg now l))
       = filter (\<lambda>e. \<not> expired (now - timedelta_days (retention_days cfg)) e) l
   \<and> expired (now - timedelta_days (retention_days cfg)) e
       = (is_file e \<and> timedelta_days (retention_days cfg) < now - st_mtime e)"
proof (intro conjI impI)
  show "expired (now - timedelta_days (retention_days cfg)) e
       = (is_file e \<and> timedelta_days (retention_days cfg) < now - st_mtime e)"
    by (auto simp: expired_def)
qed (simp_all add: cleanup_old_files_def cleanup_loop_no_errors cleanup_loop_keeps_unexpired)

theorem cleanup_old_files_retention_witness:
  "cleanup_old_files example_cfg 8640000000000
     [\<lparr> entry_name = ''A1_20240101_120000.mp3'', is_file = True, st_mtime = 864000000000,
        stat_fails = False, unlink_fails_on = False \<rparr>,
      \<lparr> entry_name = ''A2_20240320_120000.mp3'', is_file = True, st_mtime = 7776000000000,
        stat_fails = False, unlink_fails_on = False \<rparr>,
      \<lparr> entry_name = ''archive'', is_file = False, st_mtime = 864000000000,
        stat_fails = False, unlink_fails_on = False \<rparr>]
   = (1,
      [\<lparr> entry_name = ''A2_20240320_120000.mp3'', is_file = True, st_mtime = 7776000000000,
         stat_fails = False, unlink_fails_on = False \<rparr>,
       \<lparr> entry_name = ''archive'', is_file = False, st_mtime = 864000000000,
         stat_fails = False, unlink_fails_on = False \<rparr>])
   \<and> cleanup_old_files (example_cfg \<lparr> retention_days := 0 \<rparr>) 8640000000000
     [\<lparr> entry_name = ''A1_20240101_120000.mp3'', is_file = True, st_mtime = 864000000000,
        stat_fails = False, unlink_fails_on = False \<rparr>]
   = (0,
      [\<lparr> entry_name = ''A1_20240101_120000.mp3'', is_file = True, st_mtime = 864000000000,
        stat_fails = False, unlink_fails_on = False \<rparr>])"
  using cleanup_old_files_retention [of example_cfg 8640000000000
     "[\<lparr> entry_name = ''A1_20240101_120000.mp3'', is_file = True, st_mtime = 864000000000,
        stat_fails = False, unlink_fails_on = False \<rparr>,
      \<lparr> entry_name = ''A2_20240320_120000.mp3'', is_file = True, st_mtime = 7776000000000,
        stat_fails = False, unlink_fails_on = False \<rparr>,
      \<lparr> entry_name = ''archive'', is_file = False, st_mtime = 864000000000,
        stat_fails = False, unlink_fails_on = False \<rparr>]"]
    cleanup_old_files_retention [of "example_cfg \<lparr> retention_days := 0 \<rparr>" 8640000000000
     "[\<lparr> entry_name = ''A1_20240101_120000.mp3'', is_file = True, st_mtime = 864000000000,
        stat_fails = False, unlink_fails_on = False \<rparr>]"]
  by (simp add: example_cfg_def expired_def timedelta_days_def)

lemma write_output_keeps: "fs p = Some y \<Longrightarrow> \<exists>z. write_output fs q w p = Some z"
  by (simp add: write_output_def split: option.splits)

lemma write_output_None: "write_output fs q w p = None \<Longrightarrow> fs p = None"
  by (simp add: write_output_def split: option.splits if_splits)

lemma export_audio_failure_keeps:
  assumes "fst (export_audio cfg io fs p a) = None" and "fs p \<noteq> None"
  shows "snd (export_audio cfg io fs p a) p \<noteq> None"
  using assms
  by (auto simp: export_audio_def Let_def write_output_keeps dest: write_output_None
      split: if_splits option.splits export_result.splits)

lemma export_audio_deletes_only_converted:
  assumes "fs p \<noteq> None" and "snd (export_audio cfg io fs p a) p = None"
  shows "\<exists>q. fst (export_audio cfg io fs p a) = Some q \<and> q \<noteq> p
             \<and> snd (export_audio cfg io fs p a) q \<noteq> None
             \<and> audio_format cfg \<noteq> lstrip_dot (lower (path_suffix p))"
  using assms
  by (auto simp: export_audio_def Let_def write_output_keeps dest: write_output_None
      split: if_splits option.splits export_result.splits)

lemma export_audio_raises:
  assumes "export io a (audio_format cfg) = ExportRaises w"
  shows "fst (export_audio cfg io fs p a) = None"
  using assms
  by (auto simp: export_audio_def split: option.splits)

lemma process_audio_cases:
  "process_audio cfg io fs p = (None, fs)
   \<or> (\<exists>a. process_audio cfg io fs p = export_audio cfg io fs p a)"
  by (auto simp: process_audio_def split: option.splits)

text \<open>
  C5: when \<open>process_audio\<close> returns \<open>None\<close> the original file is still on disk; the
  original is gone afterwards only if the target format differs from its suffix, the
  result is the converted path, and the converted file exists. A failing load,
  normalisation or gain control returns \<open>None\<close> with the disk unchanged, and a raising
  export returns \<open>None\<close>.
\<close>

theorem process_audio_failure_keeps_original:
  "(fst (process_audio cfg io fs p) = None \<longrightarrow> fs p \<noteq> None \<longrightarrow>
      snd (process_audio cfg io fs p) p \<noteq> None)
   \<and> (fs p \<noteq> None \<longrightarrow> snd (process_audio cfg io fs p) p = None \<longrightarrow>
        (\<exists>q. fst (process_audio cfg io fs p) = Some q \<and> q \<noteq> p
             \<and> snd (process_audio cfg io fs p) q \<noteq> None
             \<and> audio_format cfg \<noteq> lstrip_dot (lower (path_suffix p))))
   \<and> (fs p = Some content \<longrightarrow> from_file io content = None \<longrightarrow>
        process_audio cfg io fs p = (None, fs))
   \<and> (fs p = Some content \<longrightarrow> from_file io content = Some loaded \<longrightarrow>
        normalize_audio cfg \<longrightarrow> normalize loaded = None \<longrightarrow>
        process_audio cfg io fs p = (None, fs))
   \<and> (fs p = Some content \<longrightarrow> from_file io content = Some loaded \<longrightarrow>
        (if normalize_audio cfg then normalize loaded else Some loaded) = Some normalized \<longrightarrow>
        auto_gain_control cfg \<longrightarrow> apply_agc io normalized = None \<longrightarrow>
        process_audio cfg io fs p = (None, fs))
   \<and> ((\<forall>a. \<exists>w. export io a (audio_format cfg) = ExportRaises w) \<longrightarrow>
        fst (process_audio cfg io fs p) = None)"
proof (intro conjI impI)
  assume "fst (process_audio cfg io fs p) = None" "fs p \<noteq> None"
  then show "snd (process_audio cfg io fs p) p \<noteq> None"
    using process_audio_cases[of cfg io fs p] export_audio_failure_keeps[of cfg io fs p]
    by auto
next
  assume "fs p \<noteq> None" "snd (process_audio cfg io fs p) p = None"
  then show "\<exists>q. fst (process_audio cfg io fs p) = Some q \<and> q \<noteq> p
             \<and> snd (process_audio cfg io fs p) q \<noteq> None
             \<and> audio_format cfg \<noteq> lstrip_dot (lower (path_suffix p))"
    using process_audio_cases[of cfg io fs p] export_audio_deletes_only_converted[of fs p cfg io]
    by auto
next
  assume "\<forall>a. \<exists>w. export io a (audio_format cfg) = ExportRaises w"
  then show "fst (process_audio cfg io fs p) = None"
    using process_audio_cases[of cfg io fs p] export_audio_raises[of io _ cfg _ fs p]
    by (metis fst_conv)
qed (simp_all add: process_audio_def)

lemma suffix_eval: "lstrip_dot (lower (path_suffix ''/audio/A1.WAV'')) = ''wav''"
  by code_simp

lemma with_suffix_eval: "with_suffix ''/audio/A1.WAV'' ''.mp3'' = Some ''/audio/A1.mp3''"
  by code_simp

theorem process_audio_failure_keeps_original_witness:
  "process_audio example_cfg (example_io \<lparr> from_file := (\<lambda>b. Some \<lparr> seg_max = 5, seg_data = b \<rparr>) \<rparr>)
      [''/audio/A1.WAV'' \<mapsto> ''RIFF''] ''/audio/A1.WAV''
     = (None, [''/audio/A1.WAV'' \<mapsto> ''RIFF''])
   \<and> fst (process_audio example_cfg example_io [''/audio/A1.WAV'' \<mapsto> ''RIFF'']
          ''/audio/A1.WAV'') = Some ''/audio/A1.mp3''
   \<and> snd (process_audio example_cfg example_io [''/audio/A1.WAV'' \<mapsto> ''RIFF'']
          ''/audio/A1.WAV'') ''/audio/A1.WAV'' = None
   \<and> snd (process_audio example_cfg example_io [''/audio/A1.WAV'' \<mapsto> ''RIFF'']
          ''/audio/A1.WAV'') ''/audio/A1.mp3'' = Some ''RIFF''"
  using process_audio_failure_keeps_original [of example_cfg
      "example_io \<lparr> from_file := (\<lambda>b. Some \<lparr> seg_max = 5, seg_data = b \<rparr>) \<rparr>"
      "[''/audio/A1.WAV'' \<mapsto> ''RIFF'']" "''/audio/A1.WAV''" "''RIFF''"
      "\<lparr> seg_max = 5, seg_data = ''RIFF'' \<rparr>"]
    process_audio_failure_keeps_original [of example_cfg example_io
      "[''/audio/A1.WAV'' \<mapsto> ''RIFF'']" "''/audio/A1.WAV''"]
  by (simp add: process_audio_def export_audio_def normalize_def write_output_def
      example_cfg_def example_io_def suffix_eval with_suffix_eval)

subsection \<open>The poll cycle\<close>












lemma parse_A1:
  "parse_call_record example_env 1700000100000000 u
     (JDict [(''id'', JStr ''A1''), (''timestamp'', JInt 1700000000), (''talkgroup'', JStr ''55'')])
   = Some example_call"
  by (simp add: parse_call_record_def parse_timestamp_def parse_float_field_def
      parse_str_field_def parse_units_def py_str_def dict_get_def dict_get_default_def
      py_or_def example_env_def Let_def example_call_def)

lemma parse_garbage: "parse_call_record env now u (JStr ''garbage'') = None"
  by (simp add: parse_call_record_def)

lemma parse_A2:
  "parse_call_record example_env 1700000100000000 u
     (JDict [(''id'', JStr ''A2''), (''audio_url'', JStr ''http://x/a.wav'')])
   = Some call_A2"
  by (simp add: parse_call_record_def parse_timestamp_def parse_float_field_def
      parse_str_field_def parse_units_def py_str_def dict_get_def dict_get_default_def
      py_or_def example_env_def Let_def call_A2_def)

lemma parse_example_calls:
  "parse_calls example_env 1700000100000000 fresh 0 example_calls = [example_call, call_A2]"
  by (simp add: example_calls_def parse_A1 parse_garbage parse_A2)

lemma paginate_two: "paginate 100 [a, b] = [[a, b]]"
  by (simp add: paginate.simps[of 100 "[a, b]"] paginate.simps[of 100 "[]"])

lemma batch_example:
  "insert_call_records_batch False 1700000100000001 [example_call, call_A2] []
   = (2, [inserted_row 1700000100000001 example_call, inserted_row 1700000100000001 call_A2])"
  by (simp add: insert_call_records_batch_def paginate_two execute_page_def upsert_def
      example_call_def call_A2_def inserted_row_def)

lemma download_A2:
  "download_audio example_cfg example_env example_io Map.empty (JStr ''http://x/a.wav'')
     (JStr ''A2'')
   = (Some ''/audio/A2_20240101_120000.mp3'',
      [''/audio/A2_20240101_120000.mp3'' \<mapsto> ''RIFFdata''])"
  by (simp add: download_audio_def stream_to_file_def download_path_def path_join_def
      py_str_def example_cfg_def example_io_def Let_def)

lemma suffix_A2: "lstrip_dot (lower (path_suffix ''/audio/A2_20240101_120000.mp3'')) = ''mp3''"
  by code_simp

lemma process_A2:
  "process_audio example_cfg example_io
     [''/audio/A2_20240101_120000.mp3'' \<mapsto> ''RIFFdata''] ''/audio/A2_20240101_120000.mp3''
   = (Some ''/audio/A2_20240101_120000.mp3'',
      [''/audio/A2_20240101_120000.mp3'' \<mapsto> ''RIFFdata''])"
  by (simp add: process_audio_def export_audio_def normalize_def write_output_def
      example_cfg_def example_io_def suffix_A2[unfolded example_cfg_def])

lemma example_cycle:
  "poll_and_process_calls example_cfg example_env 1700000100000000 1700000100000001
     example_world example_calls initial_state
   = (\<lparr> db = [inserted_row 1700000100000001 example_call,
              (inserted_row 1700000100000001 call_A2) \<lparr> row_processed := True \<rparr>],
        files = [''/audio/A2_20240101_120000.mp3'' \<mapsto> ''RIFFdata''],
        last_poll_time = Some 1700000100000000 \<rparr>,
      [example_call,
       call_A2 \<lparr> audio_file_path := Some ''/audio/A2_20240101_120000.mp3'',
                 processed := True \<rparr>])"
proof -
  have a1: "audio_url example_call = JNull" "call_id call_A2 = JStr ''A2''"
    "audio_url call_A2 = JStr ''http://x/a.wav''"
    by (simp_all add: example_call_def call_A2_def)
  have m: "mark_error example_io = False" by (simp add: example_io_def)
  have ids: "row_call_id (inserted_row 1700000100000001 example_call) = JStr ''A1''"
    "row_call_id (inserted_row 1700000100000001 call_A2) = JStr ''A2''"
    by (simp_all add: inserted_row_def example_call_def call_A2_def)
  have upd: "(inserted_row 1700000100000001 call_A2)
      \<lparr> row_processed := True, row_updated_at := 1700000100000001 \<rparr>
      = (inserted_row 1700000100000001 call_A2) \<lparr> row_processed := True \<rparr>"
    by (simp add: inserted_row_def)
  have w: "batch_error example_world = False" "audio example_world = (\<lambda>k. example_io)"
    by (simp_all add: example_world_def)
  have ne: "example_calls \<noteq> []" by (simp add: example_calls_def)
  have st: "db initial_state = []" "files initial_state = Map.empty"
    by (simp_all add: initial_state_def)
  show ?thesis
    by (simp add: poll_and_process_calls_def parse_example_calls w ne st batch_example a1
        process_call_audio_def download_A2 process_A2 m mark_call_processed_def ids upd)
qed


lemma parse_unprocessed:
  "parse_call_record env now u raw = Some r \<Longrightarrow> \<not> processed r"
  by (auto simp: parse_call_record_def Let_def split: json.splits option.splits)

lemma parse_calls_unprocessed:
  "\<forall>r \<in> set (parse_calls env now fresh k xs). \<not> processed r"
  by (induction xs arbitrary: k) (auto split: option.splits dest: parse_unprocessed)

lemma process_call_audio_flag:
  "processed (fst (process_call_audio cfg env n io r t fs))
   = (processed r \<or> audio_acquired cfg env io fs r \<noteq> None)"
  by (auto simp: process_call_audio_def audio_acquired_def split: prod.splits option.splits)

lemma process_call_audio_url:
  "audio_url (fst (process_call_audio cfg env n io r t fs)) = audio_url r"
  by (auto simp: process_call_audio_def split: prod.splits option.splits)

lemma process_call_audio_path:
  "processed (fst (process_call_audio cfg env n io r t fs)) \<Longrightarrow> \<not> processed r \<Longrightarrow>
   audio_file_path (fst (process_call_audio cfg env n io r t fs)) \<noteq> None"
  by (auto simp: process_call_audio_def split: prod.splits option.splits)

lemma process_calls_audio_inv:
  "\<forall>r \<in> set rs. \<not> processed r \<Longrightarrow>
   \<forall>r' \<in> set (fst (process_calls_audio cfg env n world k rs t fs)).
     (\<not> truthy (audio_url r') \<longrightarrow> \<not> processed r')
     \<and> (processed r' \<longrightarrow> audio_file_path r' \<noteq> None)"
proof (induction rs arbitrary: k t fs)
  case Nil
  show ?case by simp
next
  case (Cons r rs)
  from Cons.prems have np: "\<not> processed r" and rest: "\<forall>r \<in> set rs. \<not> processed r"
    by simp_all
  show ?case
  proof (cases "truthy (audio_url r)")
    case True
    obtain r' t' fs' where s: "process_call_audio cfg env n (world k) r t fs = (r', t', fs')"
      by (cases "process_call_audio cfg env n (world k) r t fs") auto
    have u: "truthy (audio_url r')"
      using process_call_audio_url[of cfg env n "world k" r t fs] s True by simp
    have p: "processed r' \<longrightarrow> audio_file_path r' \<noteq> None"
      using process_call_audio_path[of cfg env n "world k" r t fs] s np by simp
    from Cons.IH[OF rest, of "Suc k" t' fs'] True s u p show ?thesis
      by (auto split: prod.splits)
  next
    case False
    from Cons.IH[OF rest, of "Suc k" t fs] False np show ?thesis
      by (auto split: prod.splits)
  qed
qed

lemma mark_is_processed_cases:
  "is_processed (snd (mark_call_processed e n k t)) cid \<Longrightarrow>
   is_processed t cid \<or> (cid = k \<and> \<not> e \<and> k \<in> set (map row_call_id t))"
  by (auto simp: mark_call_processed_def is_processed_def split: if_splits)

lemma process_call_audio_db:
  "is_processed (fst (snd (process_call_audio cfg env n io r t fs))) cid \<Longrightarrow>
   is_processed t cid \<or> (cid = call_id r \<and> audio_acquired cfg env io fs r \<noteq> None)"
  by (auto simp: process_call_audio_def audio_acquired_def
      split: prod.splits option.splits dest: mark_is_processed_cases)

lemma process_call_audio_id:
  "call_id (fst (process_call_audio cfg env n io r t fs)) = call_id r"
  by (auto simp: process_call_audio_def split: prod.splits option.splits)

lemma process_calls_audio_db:
  "is_processed (fst (snd (process_calls_audio cfg env n world k rs t fs))) cid \<Longrightarrow>
   is_processed t cid
   \<or> (\<exists>r' \<in> set (fst (process_calls_audio cfg env n world k rs t fs)).
         call_id r' = cid \<and> processed r')"
proof (induction rs arbitrary: k t fs)
  case Nil
  then show ?case by simp
next
  case (Cons r rs)
  show ?case
  proof (cases "truthy (audio_url r)")
    case True
    obtain r' t' fs' where s: "process_call_audio cfg env n (world k) r t fs = (r', t', fs')"
      by (cases "process_call_audio cfg env n (world k) r t fs") auto
    obtain rs' t'' fs'' where l: "process_calls_audio cfg env n world (Suc k) rs t' fs'
        = (rs', t'', fs'')"
      by (cases "process_calls_audio cfg env n world (Suc k) rs t' fs'") auto
    from Cons.prems True s l have fin: "is_processed t'' cid" by simp
    from Cons.IH[of "Suc k" t' fs'] l fin
    have "is_processed t' cid \<or> (\<exists>x \<in> set rs'. call_id x = cid \<and> processed x)"
      by simp
    moreover have "is_processed t' cid \<Longrightarrow>
        is_processed t cid \<or> (call_id r' = cid \<and> processed r')"
      using process_call_audio_db[of cfg env n "world k" r t fs cid]
        process_call_audio_flag[of cfg env n "world k" r t fs]
        process_call_audio_id[of cfg env n "world k" r t fs] s
      by auto
    ultimately show ?thesis using True s l by auto
  next
    case False
    obtain rs' t'' fs'' where l: "process_calls_audio cfg env n world (Suc k) rs t fs
        = (rs', t'', fs'')"
      by (cases "process_calls_audio cfg env n world (Suc k) rs t fs") auto
    from Cons.prems False l have fin: "is_processed t'' cid" by simp
    from Cons.IH[of "Suc k" t fs] l fin
    have "is_processed t cid \<or> (\<exists>x \<in> set rs'. call_id x = cid \<and> processed x)"
      by simp
    then show ?thesis using False l by auto
  qed
qed

lemma poll_db_flag:
  "is_processed (db (fst (poll_and_process_calls cfg env now db_now world calls_data st))) cid
   \<Longrightarrow>
   is_processed (snd (insert_call_records_batch (batch_error world) db_now
                        (parse_calls env now (uuid4 world) 0 calls_data) (db st))) cid
   \<or> (\<exists>r \<in> set (snd (poll_and_process_calls cfg env now db_now world calls_data st)).
         call_id r = cid \<and> processed r)"
proof -
  assume a: "is_processed (db (fst (poll_and_process_calls cfg env now db_now world
    calls_data st))) cid"
  let ?rs = "parse_calls env now (uuid4 world) 0 calls_data"
  show ?thesis
  proof (cases "calls_data = [] \<or> ?rs = []")
    case True
    then have e: "?rs = []" by auto
    have p0: "poll_and_process_calls cfg env now db_now world calls_data st = (st, [])"
      by (cases "calls_data = []") (simp_all add: poll_and_process_calls_def Let_def e)
    have b0: "snd (insert_call_records_batch (batch_error world) db_now ?rs (db st)) = db st"
      by (simp add: e insert_call_records_batch_def)
    from a show ?thesis by (simp add: p0 b0)
  next
    case False
    obtain c t1 where b: "insert_call_records_batch (batch_error world) db_now ?rs (db st) = (c, t1)"
      by (cases "insert_call_records_batch (batch_error world) db_now ?rs (db st)") auto
    obtain rs' t2 fs2 where l: "process_calls_audio cfg env db_now (audio world) 0 ?rs t1 (files st)
        = (rs', t2, fs2)"
      by (cases "process_calls_audio cfg env db_now (audio world) 0 ?rs t1 (files st)") auto
    from False b l have p: "poll_and_process_calls cfg env now db_now world calls_data st
        = (\<lparr> db = t2, files = fs2, last_poll_time = Some now \<rparr>, rs')"
      by (simp add: poll_and_process_calls_def Let_def)
    with a have "is_processed t2 cid" by simp
    with process_calls_audio_db[of cfg env db_now "audio world" 0 ?rs t1 "files st" cid] l
    have "is_processed t1 cid \<or> (\<exists>x \<in> set rs'. call_id x = cid \<and> processed x)"
      by simp
    with b p show ?thesis by simp
  qed
qed

text \<open>
  C3, as amended: in the list of records a poll cycle leaves, a record without
  \<open>audio_url\<close> is not processed, and a processed record has its \<open>audio_file_path\<close>;
  the audio handling of a record sets \<open>processed\<close> exactly when the download and the
  transcoding both return a path, and sets a stored flag only then, for this record's
  \<open>call_id\<close>; a stored flag that is set at the end of the cycle was set by the batch
  insert or belongs to a record the cycle processed.
\<close>

theorem processed_only_after_audio:
  "(\<forall>r \<in> set (snd (poll_and_process_calls cfg env now db_now world calls_data st)).
      (\<not> truthy (audio_url r) \<longrightarrow> \<not> processed r)
      \<and> (processed r \<longrightarrow> audio_file_path r \<noteq> None))
   \<and> processed (fst (process_call_audio cfg env db_now io r t fs))
       = (processed r \<or> audio_acquired cfg env io fs r \<noteq> None)
   \<and> (is_processed (fst (snd (process_call_audio cfg env db_now io r t fs))) cid \<longrightarrow>
        is_processed t cid \<or> (cid = call_id r \<and> audio_acquired cfg env io fs r \<noteq> None))
   \<and> (is_processed
          (db (fst (poll_and_process_calls cfg env now db_now world calls_data st))) cid \<longrightarrow>
        is_processed (snd (insert_call_records_batch (batch_error world) db_now
                             (parse_calls env now (uuid4 world) 0 calls_data) (db st))) cid
        \<or> (\<exists>r \<in> set (snd (poll_and_process_calls cfg env now db_now world calls_data st)).
              call_id r = cid \<and> processed r))"
proof (intro conjI)
  let ?rs = "parse_calls env now (uuid4 world) 0 calls_data"
  have inv: "\<And>t fs. \<forall>r' \<in> set (fst (process_calls_audio cfg env db_now (audio world) 0 ?rs t fs)).
     (\<not> truthy (audio_url r') \<longrightarrow> \<not> processed r')
     \<and> (processed r' \<longrightarrow> audio_file_path r' \<noteq> None)"
    by (rule process_calls_audio_inv) (rule parse_calls_unprocessed)
  show "\<forall>r \<in> set (snd (poll_and_process_calls cfg env now db_now world calls_data st)).
      (\<not> truthy (audio_url r) \<longrightarrow> \<not> processed r)
      \<and> (processed r \<longrightarrow> audio_file_path r \<noteq> None)"
  proof (cases "calls_data = [] \<or> ?rs = []")
    case True
    then show ?thesis by (auto simp: poll_and_process_calls_def Let_def)
  next
    case False
    obtain c t1 where b: "insert_call_records_batch (batch_error world) db_now ?rs (db st) = (c, t1)"
      by (cases "insert_call_records_batch (batch_error world) db_now ?rs (db st)") auto
    obtain rs' t2 fs2 where a: "process_calls_audio cfg env db_now (audio world) 0 ?rs t1 (files st)
        = (rs', t2, fs2)"
      by (cases "process_calls_audio cfg env db_now (audio world) 0 ?rs t1 (files st)") auto
    from False b a have "snd (poll_and_process_calls cfg env now db_now world calls_data st) = rs'"
      by (simp add: poll_and_process_calls_def Let_def)
    with inv[of t1 "files st"] a show ?thesis by simp
  qed
next
  show "processed (fst (process_call_audio cfg env db_now io r t fs))
       = (processed r \<or> audio_acquired cfg env io fs r \<noteq> None)"
    by (rule process_call_audio_flag)
next
  show "is_processed (fst (snd (process_call_audio cfg env db_now io r t fs))) cid \<longrightarrow>
        is_processed t cid \<or> (cid = call_id r \<and> audio_acquired cfg env io fs r \<noteq> None)"
    using process_call_audio_db by blast
next
  show "is_processed
          (db (fst (poll_and_process_calls cfg env now db_now world calls_data st))) cid \<longrightarrow>
        is_processed (snd (insert_call_records_batch (batch_error world) db_now
                             (parse_calls env now (uuid4 world) 0 calls_data) (db st))) cid
        \<or> (\<exists>r \<in> set (snd (poll_and_process_calls cfg env now db_now world calls_data st)).
              call_id r = cid \<and> processed r)"
    using poll_db_flag by blast
qed

lemma acquired_A2:
  "audio_acquired example_cfg example_env example_io Map.empty call_A2
   = Some ''/audio/A2_20240101_120000.mp3''"
  by (simp add: audio_acquired_def call_A2_def download_A2 process_A2)

theorem processed_only_after_audio_witness:
  "snd (poll_and_process_calls example_cfg example_env 1700000100000000 1700000100000001
          example_world example_calls initial_state)
     = [example_call,
        call_A2 \<lparr> audio_file_path := Some ''/audio/A2_20240101_120000.mp3'',
                  processed := True \<rparr>]
   \<and> audio_acquired example_cfg example_env example_io Map.empty call_A2
       = Some ''/audio/A2_20240101_120000.mp3''
   \<and> processed (fst (process_call_audio example_cfg example_env 1700000100000001 example_io
                       call_A2 [inserted_row 1700000100000001 call_A2] Map.empty))
   \<and> is_processed (fst (snd (process_call_audio example_cfg example_env 1700000100000001
                       example_io call_A2 [inserted_row 1700000100000001 call_A2] Map.empty)))
        (JStr ''A2'')"
proof -
  have a: "call_id call_A2 = JStr ''A2''" "audio_url call_A2 = JStr ''http://x/a.wav''"
    "\<not> processed call_A2"
    by (simp_all add: call_A2_def)
  have m: "mark_error example_io = False" by (simp add: example_io_def)
  have step: "process_call_audio example_cfg example_env 1700000100000001 example_io call_A2
                [inserted_row 1700000100000001 call_A2] Map.empty
              = (call_A2 \<lparr> audio_file_path := Some ''/audio/A2_20240101_120000.mp3'',
                           processed := True \<rparr>,
                 [(inserted_row 1700000100000001 call_A2) \<lparr> row_processed := True \<rparr>],
                 [''/audio/A2_20240101_120000.mp3'' \<mapsto> ''RIFFdata''])"
    by (simp add: process_call_audio_def a download_A2 process_A2 m mark_call_processed_def
        inserted_row_def)
  have db: "is_processed [(inserted_row 1700000100000001 call_A2) \<lparr> row_processed := True \<rparr>]
              (JStr ''A2'')"
    by (simp add: is_processed_def inserted_row_def a)
  from processed_only_after_audio [of example_cfg example_env 1700000100000000
      1700000100000001 example_world example_calls initial_state example_io call_A2
      "[inserted_row 1700000100000001 call_A2]" Map.empty "JStr ''A2''"]
  show ?thesis
    by (simp add: example_cycle acquired_A2 step db)
qed

text \<open>
  C3 as stated fails: after the cycle over the three example calls the record of the call
  without \<open>audio_url\<close> is not processed, and neither is its stored row.
\<close>

theorem no_audio_record_stays_unprocessed:
  "snd (poll_and_process_calls example_cfg example_env 1700000100000000 1700000100000001
          example_world example_calls initial_state) ! 0 = example_call
   \<and> \<not> truthy (audio_url example_call)
   \<and> \<not> processed example_call
   \<and> rows_of (db (fst (poll_and_process_calls example_cfg example_env 1700000100000000
                          1700000100000001 example_world example_calls initial_state)))
        (JStr ''A1'')
       = [inserted_row 1700000100000001 example_call]
   \<and> \<not> row_processed (inserted_row 1700000100000001 example_call)"
  by (simp add: example_cycle rows_of_def inserted_row_def example_call_def call_A2_def)

end
